theory Spec2Isabelle
  imports Complex_Main "HOL-Library.Signed_Division"
begin

section \<open>Data model\<close>

text \<open>
  The tables of the PostgreSQL schema are lists of rows, a row is a record whose fields
  carry the column names behind the alias the queries use for the table (\<open>u\<close> for
  \<open>users\<close>, \<open>p\<close> for \<open>projects\<close>, \<open>vs\<close>, \<open>ps\<close>, \<open>s\<close>, \<open>pvm\<close>). A nullable column is an
  \<open>option\<close>, \<open>None\<close> being SQL's NULL. Identifiers (UUID columns, Go strings) are
  strings, timestamps are natural numbers. Go's \<open>float64\<close> and SQL's \<open>double precision\<close>
  and \<open>DECIMAL\<close> values are modelled by the real numbers they denote: rounding, NaN and
  the scale of a \<open>DECIMAL\<close> column are outside this model.
\<close>

type_synonym uuid = string
type_synonym timestamp = nat

text \<open>\<open>models.Enrollment\<close>, which is also the row of \<open>volunteer_enrollments\<close>.\<close>

record Enrollment =
  ID :: uuid
  VolunteerID :: uuid
  ProjectID :: uuid
  Status :: string
  InitiatedBy :: uuid
  Message :: "string option"
  ResponseMessage :: "string option"
  CreatedAt :: timestamp
  UpdatedAt :: timestamp
  ApprovedAt :: "timestamp option"
  CompletedAt :: "timestamp option"

record user_row =
  u_id :: uuid
  u_name :: string
  u_email :: string
  u_role :: string
  u_latitude :: "real option"
  u_longitude :: "real option"
  u_location_name :: "string option"
  u_location_point :: "(real \<times> real) option"

record project_row =
  p_id :: uuid
  p_name :: string
  p_status :: string
  p_latitude :: "real option"
  p_longitude :: "real option"
  p_location_name :: "string option"
  p_location_point :: "(real \<times> real) option"

record skill_row =
  s_id :: uuid
  s_name :: string

record volunteer_skill_row =
  vs_volunteer_id :: uuid
  vs_skill_id :: uuid
  vs_claimed :: bool
  vs_score :: real

record project_skill_row =
  ps_project_id :: uuid
  ps_skill_id :: uuid
  ps_required :: bool
  ps_weight :: real

text \<open>A row of \<open>project_volunteer_matches\<close>, the match cache.\<close>

record match_row =
  pvm_project_id :: uuid
  pvm_volunteer_id :: uuid
  pvm_skill_score :: real
  pvm_distance_km :: real
  pvm_combined_score :: real
  pvm_matched_skills :: "string list"

text \<open>
  The database. \<open>volunteer_skill_vectors\<close> is the materialized view of that name: the
  vector stored for a volunteer at the last \<open>REFRESH MATERIALIZED VIEW\<close>, looked up by
  volunteer id. \<open>has_postgis\<close> says whether the PostGIS extension is installed.
\<close>

record database =
  users :: "user_row list"
  projects :: "project_row list"
  skills :: "skill_row list"
  volunteer_skills :: "volunteer_skill_row list"
  project_skills :: "project_skill_row list"
  volunteer_skill_vectors :: "(uuid \<times> real list) list"
  volunteer_enrollments :: "Enrollment list"
  project_volunteer_matches :: "match_row list"
  has_postgis :: bool

section \<open>Enrollment state machine (enrollment/service.go, api/enrollment_handlers.go)\<close>

subsection \<open>Strings\<close>

text \<open>\<open>strings.ToLower\<close>, \<open>strings.HasPrefix\<close> and \<open>strings.Contains\<close> on ASCII text.\<close>

definition lower_char :: "char \<Rightarrow> char" where
  "lower_char c =
     (let n = (of_char c :: nat)
      in if of_char CHR ''A'' \<le> n \<and> n \<le> of_char CHR ''Z'' then char_of (n + 32) else c)"

definition ToLower :: "string \<Rightarrow> string" where
  "ToLower s = map lower_char s"

fun HasPrefix :: "string \<Rightarrow> string \<Rightarrow> bool" where
  "HasPrefix s [] = True"
| "HasPrefix [] (p # ps) = False"
| "HasPrefix (c # cs) (p # ps) = (c = p \<and> HasPrefix cs ps)"

fun Contains :: "string \<Rightarrow> string \<Rightarrow> bool" where
  "Contains [] sub = (sub = [])"
| "Contains (c # cs) sub = (HasPrefix (c # cs) sub \<or> Contains cs sub)"

subsection \<open>The store: INSERT into \<open>volunteer_enrollments\<close>\<close>

text \<open>
  The constraint violations an INSERT into \<open>volunteer_enrollments\<close> can raise, with the
  name of the constraint, and the message lib/pq reports for each. PostgreSQL checks
  the unique indexes when the row is inserted and the foreign keys after it.
\<close>

datatype pq_error = unique_violation string | foreign_key_violation string

fun pq_Error :: "pq_error \<Rightarrow> string" where
  "pq_Error (unique_violation c) =
     ''pq: duplicate key value violates unique constraint '' @ [CHR 0x22] @ c @ [CHR 0x22]"
| "pq_Error (foreign_key_violation c) =
     ''pq: insert or update on table '' @ [CHR 0x22] @ ''volunteer_enrollments'' @ [CHR 0x22]
       @ '' violates foreign key constraint '' @ [CHR 0x22] @ c @ [CHR 0x22]"

definition insert_violation :: "database \<Rightarrow> Enrollment \<Rightarrow> pq_error option" where
  "insert_violation db e =
     (if \<exists>r \<in> set (volunteer_enrollments db). ID r = ID e
        then Some (unique_violation ''volunteer_enrollments_pkey'')
      else if \<exists>r \<in> set (volunteer_enrollments db).
                VolunteerID r = VolunteerID e \<and> ProjectID r = ProjectID e
        then Some (unique_violation ''volunteer_enrollments_volunteer_id_project_id_key'')
      else if \<not> (\<exists>u \<in> set (users db). u_id u = VolunteerID e)
        then Some (foreign_key_violation ''volunteer_enrollments_volunteer_id_fkey'')
      else if \<not> (\<exists>p \<in> set (projects db). p_id p = ProjectID e)
        then Some (foreign_key_violation ''volunteer_enrollments_project_id_fkey'')
      else if \<not> (\<exists>u \<in> set (users db). u_id u = InitiatedBy e)
        then Some (foreign_key_violation ''volunteer_enrollments_initiated_by_fkey'')
      else None)"

subsection \<open>\<open>Service.CreateEnrollment\<close>\<close>

text \<open>
  \<open>new_id\<close> is the value \<open>gen_random_uuid()\<close> draws for the row and \<open>now\<close> the value of
  \<open>NOW()\<close>. The result is Go's \<open>(*models.Enrollment, error)\<close>: \<open>Inl\<close> the error message,
  \<open>Inr\<close> the row returned, together with the database after the call.
\<close>

definition insert_enrollment ::
  "database \<Rightarrow> uuid \<Rightarrow> timestamp \<Rightarrow> uuid \<Rightarrow> uuid \<Rightarrow> string \<Rightarrow> uuid \<Rightarrow> string option
     \<Rightarrow> (string + Enrollment) \<times> database" where
  "insert_enrollment db new_id now volunteerID projectID status initiatedBy messagePtr =
     (let enrollment = \<lparr>ID = new_id, VolunteerID = volunteerID, ProjectID = projectID,
            Status = status, InitiatedBy = initiatedBy, Message = messagePtr,
            ResponseMessage = None, CreatedAt = now, UpdatedAt = now,
            ApprovedAt = None, CompletedAt = None\<rparr>
      in case insert_violation db enrollment of
           Some err \<Rightarrow> (Inl (''failed to create enrollment: '' @ pq_Error err), db)
         | None \<Rightarrow>
             (Inr enrollment,
              db\<lparr>volunteer_enrollments := volunteer_enrollments db @ [enrollment]\<rparr>))"

definition CreateEnrollment ::
  "database \<Rightarrow> uuid \<Rightarrow> timestamp \<Rightarrow> uuid \<Rightarrow> uuid \<Rightarrow> string \<Rightarrow> string \<Rightarrow> uuid
     \<Rightarrow> (string + Enrollment) \<times> database" where
  "CreateEnrollment db new_id now volunteerID projectID action message initiatedBy =
     (let messagePtr = (if message \<noteq> [] then Some message else None)
      in if action = ''request''
           then insert_enrollment db new_id now volunteerID projectID ''requested''
                  initiatedBy messagePtr
         else if action = ''invite''
           then insert_enrollment db new_id now volunteerID projectID ''invited''
                  initiatedBy messagePtr
         else (Inl (''invalid action: '' @ action @ '' (must be 'request' or 'invite')''), db))"

subsection \<open>\<open>Service.UpdateEnrollmentStatus\<close>\<close>

text \<open>
  The chain of conditionals that determines the new status from the current status and
  the action: \<open>Inl\<close> the error returned, \<open>Inr\<close> the new status.
\<close>

definition newStatus :: "string \<Rightarrow> string \<Rightarrow> string + string" where
  "newStatus currentStatus action =
     (if action = ''accept'' then
        (if currentStatus = ''requested'' \<or> currentStatus = ''invited''
           then Inr ''enrolled''
         else Inl (''cannot accept enrollment in status: '' @ currentStatus))
      else if action = ''reject'' then
        (if currentStatus = ''requested'' then Inr ''tl_rejected''
         else if currentStatus = ''invited'' then Inr ''v_rejected''
         else Inl (''cannot reject enrollment in status: '' @ currentStatus))
      else if action = ''withdraw'' then
        (if currentStatus = ''requested'' then Inr ''v_rejected''
         else Inl (''cannot withdraw enrollment in status: '' @ currentStatus))
      else Inl (''invalid action: '' @ action @ '' (must be 'accept' or 'reject')''))"

text \<open>
  The UPDATE statement, applied to one row that satisfies \<open>WHERE id = $1\<close>. The
  statement uses its parameter \<open>$2\<close> both as the new value of \<open>status\<close> and in the
  comparison \<open>$2 = 'enrolled'\<close>; the model has one string in both places.
\<close>

definition update_row :: "timestamp \<Rightarrow> string \<Rightarrow> string option \<Rightarrow> Enrollment \<Rightarrow> Enrollment" where
  "update_row now status response e =
     e\<lparr>Status := status, ResponseMessage := response, UpdatedAt := now,
       ApprovedAt := (if status = ''enrolled'' then Some now else ApprovedAt e)\<rparr>"

text \<open>
  The result is Go's \<open>error\<close> (\<open>None\<close> is \<open>nil\<close>) and the database after the call.
\<close>

definition UpdateEnrollmentStatus ::
  "database \<Rightarrow> timestamp \<Rightarrow> uuid \<Rightarrow> string \<Rightarrow> string \<Rightarrow> string option \<times> database" where
  "UpdateEnrollmentStatus db now enrollmentID action responseMessage =
     (case find (\<lambda>e. ID e = enrollmentID) (volunteer_enrollments db) of
        None \<Rightarrow> (Some ''enrollment not found'', db)
      | Some row \<Rightarrow>
          (case newStatus (Status row) action of
             Inl err \<Rightarrow> (Some err, db)
           | Inr status \<Rightarrow>
               let responseMessageParam =
                     (if responseMessage = [] then None else Some responseMessage);
                   rowsAffected =
                     length (filter (\<lambda>e. ID e = enrollmentID) (volunteer_enrollments db));
                   db' = db\<lparr>volunteer_enrollments :=
                     map (\<lambda>e. if ID e = enrollmentID
                               then update_row now status responseMessageParam e else e)
                       (volunteer_enrollments db)\<rparr>
               in if rowsAffected = 0 then (Some ''enrollment not found'', db')
                  else (None, db')))"

subsection \<open>\<open>EnrollmentHandler.CreateEnrollment\<close>\<close>

text \<open>
  The decoded request body (\<open>models.CreateEnrollmentRequest\<close>); the handler receives
  \<open>None\<close> when the body does not decode. A response is \<open>http.Error\<close> with its status
  code and message, the JSON encoding of an enrollment with status 200, or status 200
  alone.
\<close>

record CreateEnrollmentRequest =
  req_ProjectID :: string
  req_Action :: string
  req_VolunteerID :: "string option"
  req_Message :: "string option"

datatype http_response = http_Error nat string | http_JSON Enrollment | http_OK

definition StatusBadRequest :: nat where "StatusBadRequest = 400"
definition StatusConflict :: nat where "StatusConflict = 409"
definition StatusInternalServerError :: nat where "StatusInternalServerError = 500"

definition EnrollmentHandler_CreateEnrollment ::
  "database \<Rightarrow> uuid \<Rightarrow> timestamp \<Rightarrow> CreateEnrollmentRequest option \<Rightarrow> string
     \<Rightarrow> http_response \<times> database" where
  "EnrollmentHandler_CreateEnrollment db new_id now body userID =
     (case body of
        None \<Rightarrow> (http_Error StatusBadRequest ''Invalid request body'', db)
      | Some req \<Rightarrow>
          if userID = [] then (http_Error StatusBadRequest ''User ID required'', db)
          else if req_Action req \<noteq> ''request'' \<and> req_Action req \<noteq> ''invite''
            then (http_Error StatusBadRequest
                    ''Invalid action (must be 'request' or 'invite')'', db)
          else if req_Action req = ''invite''
                  \<and> (req_VolunteerID req = None \<or> req_VolunteerID req = Some [])
            then (http_Error StatusBadRequest ''Volunteer ID required for invite action'', db)
          else
           (let volunteerID =
                  (if req_Action req = ''invite'' then the (req_VolunteerID req) else userID);
                message = (case req_Message req of None \<Rightarrow> [] | Some m \<Rightarrow> m)
            in case CreateEnrollment db new_id now volunteerID (req_ProjectID req)
                      (req_Action req) message userID of
                 (Inl err, db') \<Rightarrow>
                   (let errStr = ToLower err
                    in if Contains errStr ''duplicate key''
                          \<and> Contains errStr ''volunteer_enrollments_volunteer_id_project_id_key''
                         then (http_Error StatusConflict
                           ''This volunteer is already enrolled or has a pending enrollment for this project'',
                           db')
                       else (http_Error StatusInternalServerError
                               (''Failed to create enrollment: '' @ err), db'))
               | (Inr enrollment, db') \<Rightarrow> (http_JSON enrollment, db')))"

subsection \<open>\<open>EnrollmentHandler.UpdateEnrollmentStatus\<close>\<close>

text \<open>
  The decoded body is \<open>models.UpdateEnrollmentRequest\<close>; on success the handler writes
  status 200 with no body.
\<close>

record UpdateEnrollmentRequest =
  upd_Action :: string
  upd_ResponseMessage :: "string option"

definition EnrollmentHandler_UpdateEnrollmentStatus ::
  "database \<Rightarrow> timestamp \<Rightarrow> uuid \<Rightarrow> UpdateEnrollmentRequest option
     \<Rightarrow> http_response \<times> database" where
  "EnrollmentHandler_UpdateEnrollmentStatus db now enrollmentID body =
     (case body of
        None \<Rightarrow> (http_Error StatusBadRequest ''Invalid request body'', db)
      | Some req \<Rightarrow>
          if upd_Action req \<noteq> ''accept'' \<and> upd_Action req \<noteq> ''reject''
             \<and> upd_Action req \<noteq> ''withdraw''
            then (http_Error StatusBadRequest
                    ''Invalid action (must be 'accept', 'reject' or 'withdraw')'', db)
          else
           (let responseMessage = (case upd_ResponseMessage req of None \<Rightarrow> [] | Some m \<Rightarrow> m)
            in case UpdateEnrollmentStatus db now enrollmentID (upd_Action req)
                      responseMessage of
                 (Some err, db') \<Rightarrow>
                   (if HasPrefix err ''cannot '' \<or> Contains (ToLower err) ''invalid action''
                      then (http_Error StatusBadRequest (''Bad request: '' @ err), db')
                    else (http_Error StatusInternalServerError
                            (''Failed to update enrollment: '' @ err), db'))
               | (None, db') \<Rightarrow> (http_OK, db')))"

section \<open>Skill vector builder (\<open>get_volunteer_skill_vector\<close>, \<open>get_project_skill_vector\<close>)\<close>

text \<open>
  Functions of PostgreSQL and its extensions that the SQL calls and the repository does
  not define: \<open>hashtext\<close> (a 32-bit signed hash of a text), the cosine distance operator
  \<open><=>\<close> of pgvector and \<open>ST_Distance\<close> of PostGIS (in metres). They are parameters of the
  model.
\<close>

record pg_functions =
  hashtext :: "string \<Rightarrow> int"
  cosine_distance :: "real list \<Rightarrow> real list \<Rightarrow> real"
  ST_Distance :: "real \<times> real \<Rightarrow> real \<times> real \<Rightarrow> real"

text \<open>
  \<open>(@ hashtext(skill_id::text) % p_dimension) + 1\<close>: SQL's \<open>%\<close> truncates towards zero
  (\<open>smod\<close>) and \<open>@\<close> is the absolute value.
\<close>

definition skill_position :: "pg_functions \<Rightarrow> uuid \<Rightarrow> int \<Rightarrow> int" where
  "skill_position pg skill_id p_dimension = \<bar>hashtext pg skill_id smod p_dimension\<bar> + 1"

text \<open>
  The CTE \<open>all_positions\<close>: for every \<open>i\<close> of \<open>generate_series(1, p_dimension)\<close>, in
  order, \<open>COALESCE(MAX(value), 0)\<close> over the rows of \<open>skill_positions\<close> at position \<open>i\<close>.
\<close>

definition slot_value :: "(int \<times> real) list \<Rightarrow> int \<Rightarrow> real" where
  "slot_value skill_positions i =
     (let vals = map snd (filter (\<lambda>sp. fst sp = i) skill_positions)
      in if vals = [] then 0 else Max (set vals))"

definition all_positions :: "(int \<times> real) list \<Rightarrow> int \<Rightarrow> real list" where
  "all_positions skill_positions p_dimension =
     map (slot_value skill_positions) [1..p_dimension]"

text \<open>
  The two functions return the vector, or NULL (\<open>None\<close>) when the series is empty, which
  is when \<open>p_dimension < 1\<close> (at \<open>p_dimension = 0\<close> PostgreSQL raises a division by zero
  instead if it evaluates a position; the model has \<open>None\<close> there too). The text form
  and the cast to \<open>vector\<close> keep the values.
\<close>

definition get_volunteer_skill_vector ::
  "pg_functions \<Rightarrow> database \<Rightarrow> uuid \<Rightarrow> int \<Rightarrow> real list option" where
  "get_volunteer_skill_vector pg db p_volunteer_id p_dimension =
     (let skill_positions =
            map (\<lambda>vs. (skill_position pg (vs_skill_id vs) p_dimension, vs_score vs))
              (filter (\<lambda>vs. vs_volunteer_id vs = p_volunteer_id \<and> vs_claimed vs)
                 (volunteer_skills db))
      in if p_dimension < 1 then None
         else Some (all_positions skill_positions p_dimension))"

definition get_project_skill_vector ::
  "pg_functions \<Rightarrow> database \<Rightarrow> uuid \<Rightarrow> int \<Rightarrow> real list option" where
  "get_project_skill_vector pg db p_project_id p_dimension =
     (let skill_positions =
            map (\<lambda>ps. (skill_position pg (ps_skill_id ps) p_dimension, ps_weight ps))
              (filter (\<lambda>ps. ps_project_id ps = p_project_id) (project_skills db))
      in if p_dimension < 1 then None
         else Some (all_positions skill_positions p_dimension))"

text \<open>\<open>p_dimension INTEGER DEFAULT 1000\<close>, in both functions.\<close>

definition default_dimension :: int where
  "default_dimension = 1000"

section \<open>Similarity scorer (matching/service.go, \<open>CosineSimilarity\<close>)\<close>





section \<open>Geo distance calculator\<close>

definition radians :: "real \<Rightarrow> real" where
  "radians d = d * pi / 180"

text \<open>The two-argument arctangent of PL/pgSQL's \<open>atan2(y, x)\<close>.\<close>

definition atan2 :: "real \<Rightarrow> real \<Rightarrow> real" where
  "atan2 y x =
     (if 0 < x then arctan (y / x)
      else if x < 0 then (if 0 \<le> y then arctan (y / x) + pi else arctan (y / x) - pi)
      else if 0 < y then pi / 2
      else if y < 0 then - (pi / 2)
      else 0)"

text \<open>The SQL function \<open>haversine_distance_km\<close>.\<close>

definition haversine_distance_km :: "real \<Rightarrow> real \<Rightarrow> real \<Rightarrow> real \<Rightarrow> real" where
  "haversine_distance_km lat1 lon1 lat2 lon2 =
     (let earth_radius = 6371;
          dlat = radians (lat2 - lat1);
          dlon = radians (lon2 - lon1);
          a = sin (dlat / 2) * sin (dlat / 2)
              + cos (radians lat1) * cos (radians lat2) * sin (dlon / 2) * sin (dlon / 2);
          c = 2 * atan2 (sqrt a) (sqrt (1 - a))
      in earth_radius * c)"

section \<open>Tiered match ranker and match cache (006_batch_matching.up.sql, \<open>refresh_all_matches\<close>)\<close>

subsection \<open>SQL's three-valued logic\<close>

text \<open>
  A condition is \<open>Some True\<close>, \<open>Some False\<close> or NULL (\<open>None\<close>). \<open>x ILIKE '%name%'\<close> is
  NULL on a NULL \<open>x\<close> and otherwise says whether \<open>x\<close> contains \<open>name\<close>, letter case
  ignored. A \<open>CASE WHEN c\<close> takes its branch only when \<open>c\<close> is true.
\<close>

definition sql_and :: "bool option \<Rightarrow> bool option \<Rightarrow> bool option" where
  "sql_and a b =
     (if a = Some False \<or> b = Some False then Some False
      else if a = None \<or> b = None then None
      else Some True)"

definition sql_or :: "bool option \<Rightarrow> bool option \<Rightarrow> bool option" where
  "sql_or a b =
     (if a = Some True \<or> b = Some True then Some True
      else if a = None \<or> b = None then None
      else Some False)"

definition ILIKE :: "string option \<Rightarrow> string \<Rightarrow> bool option" where
  "ILIKE x name = (case x of None \<Rightarrow> None | Some t \<Rightarrow> Some (Contains (ToLower t) (ToLower name)))"

definition both_ILIKE :: "string option \<Rightarrow> string option \<Rightarrow> string \<Rightarrow> bool option" where
  "both_ILIKE p_location u_location name =
     sql_and (ILIKE p_location name) (ILIKE u_location name)"

text \<open>The condition of the \<open>CASE\<close> of tier 2 (the "national exception").\<close>

definition national_exception :: "string option \<Rightarrow> string option \<Rightarrow> bool option" where
  "national_exception p_location u_location =
     sql_or (both_ILIKE p_location u_location ''Canada'')
    (sql_or (both_ILIKE p_location u_location ''Ontario'')
    (sql_or (both_ILIKE p_location u_location ''Alberta'')
    (sql_or (both_ILIKE p_location u_location ''British Columbia'')
    (sql_or (both_ILIKE p_location u_location ''Quebec'')
    (sql_or (both_ILIKE p_location u_location ''Manitoba'')
    (sql_or (both_ILIKE p_location u_location ''Saskatchewan'')
    (sql_or (both_ILIKE p_location u_location ''Nova Scotia'')
    (sql_or (both_ILIKE p_location u_location ''New Brunswick'')
    (sql_or (both_ILIKE p_location u_location ''Newfoundland'')
    (sql_or (both_ILIKE p_location u_location ''Prince Edward Island'')
    (sql_or (both_ILIKE p_location u_location ''Northwest Territories'')
    (sql_or (both_ILIKE p_location u_location ''Yukon'')
            (both_ILIKE p_location u_location ''Nunavut'')))))))))))))"

subsection \<open>The CTE \<open>volunteer_project_combinations\<close>\<close>

record combination =
  c_project_id :: uuid
  c_volunteer_id :: uuid
  c_p_location :: "string option"
  c_u_location :: "string option"
  c_skill_score :: real
  c_distance_km :: real
  c_matched_skills :: "string list"

text \<open>
  \<open>LEFT JOIN volunteer_skill_vectors vsv ON vsv.volunteer_id = u.id\<close>: the vectors the
  view stores for the volunteer, or one NULL when it stores none.
\<close>

definition left_join_vsv :: "database \<Rightarrow> uuid \<Rightarrow> real list option list" where
  "left_join_vsv db volunteer_id =
     (let vsv = map snd (filter (\<lambda>r. fst r = volunteer_id) (volunteer_skill_vectors db))
      in if vsv = [] then [None] else map Some vsv)"

text \<open>\<open>COALESCE(1 - (vsv.skill_vector <=> get_project_skill_vector(p.id)), 0)\<close>.\<close>

definition batch_skill_score ::
  "pg_functions \<Rightarrow> database \<Rightarrow> project_row \<Rightarrow> real list option \<Rightarrow> real" where
  "batch_skill_score pg db p vsv =
     (case (vsv, get_project_skill_vector pg db (p_id p) default_dimension) of
        (Some v, Some pv) \<Rightarrow> 1 - cosine_distance pg v pv
      | _ \<Rightarrow> 0)"

definition batch_distance_km :: "project_row \<Rightarrow> user_row \<Rightarrow> real" where
  "batch_distance_km p u =
     (case (p_latitude p, p_longitude p, u_latitude u, u_longitude u) of
        (Some plat, Some plon, Some ulat, Some ulon) \<Rightarrow>
          6371 * 2 * arcsin (min 1 (sqrt (
            (sin (radians (plat - ulat) / 2))\<^sup>2 +
            cos (radians ulat) * cos (radians plat) *
            (sin (radians (plon - ulon) / 2))\<^sup>2)))
      | _ \<Rightarrow> 999999)"

definition matched_skills :: "database \<Rightarrow> uuid \<Rightarrow> uuid \<Rightarrow> string list" where
  "matched_skills db volunteer_id project_id =
     concat (map (\<lambda>vs. concat (map (\<lambda>ps. concat (map (\<lambda>s.
        if vs_skill_id vs = ps_skill_id ps \<and> vs_skill_id vs = s_id s
           \<and> vs_volunteer_id vs = volunteer_id \<and> ps_project_id ps = project_id
           \<and> vs_claimed vs
        then [s_name s] else [])
       (skills db))) (project_skills db))) (volunteer_skills db))"

text \<open>The subquery under \<open>NOT EXISTS\<close> (tier 1).\<close>

definition tier1_exists :: "database \<Rightarrow> user_row \<Rightarrow> project_row \<Rightarrow> bool" where
  "tier1_exists db u p =
     (\<exists>ve \<in> set (volunteer_enrollments db).
        VolunteerID ve = u_id u \<and> ProjectID ve = p_id p \<and> Status ve = ''active'')"

definition combination_of ::
  "pg_functions \<Rightarrow> database \<Rightarrow> project_row \<Rightarrow> user_row \<Rightarrow> real list option \<Rightarrow> combination" where
  "combination_of pg db p u vsv =
     \<lparr>c_project_id = p_id p, c_volunteer_id = u_id u,
      c_p_location = p_location_name p, c_u_location = u_location_name u,
      c_skill_score = batch_skill_score pg db p vsv,
      c_distance_km = batch_distance_km p u,
      c_matched_skills = matched_skills db (u_id u) (p_id p)\<rparr>"

definition volunteer_project_combinations :: "pg_functions \<Rightarrow> database \<Rightarrow> combination list" where
  "volunteer_project_combinations pg db =
     concat (map (\<lambda>p. concat (map (\<lambda>u.
        if p_status p = ''active''
           \<and> u_role u = ''volunteer''
           \<and> u_latitude u \<noteq> None
           \<and> u_longitude u \<noteq> None
           \<and> \<not> tier1_exists db u p
        then map (combination_of pg db p u) (left_join_vsv db (u_id u))
        else [])
       (users db))) (projects db))"

subsection \<open>The CTE \<open>tiered_matches\<close> and the final SELECT\<close>

definition tier2_combined_score :: "combination \<Rightarrow> real" where
  "tier2_combined_score c =
     (if national_exception (c_p_location c) (c_u_location c) = Some True
        then 0.7 * c_skill_score c + 0.3 * max 0 (1 - c_distance_km c / 100)
      else 0.4 * c_skill_score c + 0.6 * max 0 (1 - c_distance_km c / 100))"

definition tiered_match :: "combination \<Rightarrow> match_row" where
  "tiered_match c =
     \<lparr>pvm_project_id = c_project_id c, pvm_volunteer_id = c_volunteer_id c,
      pvm_skill_score = c_skill_score c, pvm_distance_km = c_distance_km c,
      pvm_combined_score = tier2_combined_score c,
      pvm_matched_skills = c_matched_skills c\<rparr>"

definition tiered_matches :: "combination list \<Rightarrow> match_row list" where
  "tiered_matches combinations =
     map tiered_match (filter (\<lambda>c. c_distance_km c \<le> 500) combinations)"

text \<open>
  The rows the INSERT receives: \<open>WHERE combined_score > 0.1 ORDER BY combined_score DESC\<close>
  (rows of equal score keep their order).
\<close>

definition selected_matches :: "pg_functions \<Rightarrow> database \<Rightarrow> match_row list" where
  "selected_matches pg db =
     sort_key (\<lambda>m. - pvm_combined_score m)
       (filter (\<lambda>m. pvm_combined_score m > 0.1)
          (tiered_matches (volunteer_project_combinations pg db)))"

text \<open>
  \<open>refresh_all_matches()\<close>: DELETE all rows, INSERT the selected ones, return their
  number. The table has \<open>UNIQUE(project_id, volunteer_id)\<close>: the INSERT of two rows for
  one pair raises, and the function leaves the database as it was.
\<close>

definition refresh_all_matches :: "pg_functions \<Rightarrow> database \<Rightarrow> pq_error + (int \<times> database)" where
  "refresh_all_matches pg db =
     (let rows = selected_matches pg db
      in if \<not> distinct (map (\<lambda>m. (pvm_project_id m, pvm_volunteer_id m)) rows)
           then Inl (unique_violation ''project_volunteer_matches_project_id_volunteer_id_key'')
         else Inr (int (length rows), db\<lparr>project_volunteer_matches := rows\<rparr>))"

section \<open>On-demand matching (\<open>find_matching_volunteers\<close>, matching/service.go)\<close>











section \<open>Specification-side definitions and sample states\<close>


text \<open>
  A small database for the concrete instances below. Users: a volunteer in Ottawa, a
  coordinator, and a volunteer with no location. Projects, all active: one in Ottawa,
  one at the same coordinates whose location names no Canadian region, and one with no
  location. The enrollments are given.
\<close>

definition sample_volunteer :: user_row where
  "sample_volunteer =
     \<lparr>u_id = ''u1'', u_name = ''Vera'', u_email = ''vera@volunteers.org'',
      u_role = ''volunteer'', u_latitude = Some 45, u_longitude = Some (-75),
      u_location_name = Some ''Ottawa, Ontario, Canada'', u_location_point = None\<rparr>"

definition sample_coordinator :: user_row where
  "sample_coordinator =
     \<lparr>u_id = ''u2'', u_name = ''Coordinator User'', u_email = ''coordinator@civicweave.org'',
      u_role = ''coordinator'', u_latitude = None, u_longitude = None,
      u_location_name = None, u_location_point = None\<rparr>"

definition sample_nowhere :: user_row where
  "sample_nowhere =
     \<lparr>u_id = ''u3'', u_name = ''Nolan'', u_email = ''nolan@volunteers.org'',
      u_role = ''volunteer'', u_latitude = None, u_longitude = None,
      u_location_name = None, u_location_point = None\<rparr>"

definition sample_project :: project_row where
  "sample_project =
     \<lparr>p_id = ''p1'', p_name = ''Youth Coding Workshop'', p_status = ''active'',
      p_latitude = Some 45, p_longitude = Some (-75),
      p_location_name = Some ''Ottawa, Ontario'', p_location_point = None\<rparr>"

definition sample_project_abroad :: project_row where
  "sample_project_abroad =
     \<lparr>p_id = ''p2'', p_name = ''Food Bank Organization'', p_status = ''active'',
      p_latitude = Some 45, p_longitude = Some (-75),
      p_location_name = Some ''Buffalo, NY'', p_location_point = None\<rparr>"

definition sample_project_nowhere :: project_row where
  "sample_project_nowhere =
     \<lparr>p_id = ''p3'', p_name = ''Senior Tech Support'', p_status = ''active'',
      p_latitude = None, p_longitude = None,
      p_location_name = None, p_location_point = None\<rparr>"

definition sample_enrollment :: "string \<Rightarrow> Enrollment" where
  "sample_enrollment status =
     \<lparr>ID = ''e1'', VolunteerID = ''u1'', ProjectID = ''p1'', Status = status,
      InitiatedBy = ''u1'', Message = None, ResponseMessage = None,
      CreatedAt = 1, UpdatedAt = 1, ApprovedAt = None, CompletedAt = None\<rparr>"

definition sample_db :: "Enrollment list \<Rightarrow> database" where
  "sample_db enrollments =
     \<lparr>users = [sample_volunteer, sample_coordinator, sample_nowhere],
      projects = [sample_project, sample_project_abroad, sample_project_nowhere],
      skills = [], volunteer_skills = [], project_skills = [],
      volunteer_skill_vectors = [], volunteer_enrollments = enrollments,
      project_volunteer_matches = [], has_postgis = False\<rparr>"

text \<open>
  The error \<open>CreateEnrollment\<close> returns when the INSERT violates the unique constraint on
  (volunteer_id, project_id), and the response the handler makes of it.
\<close>

definition conflict_error :: string where
  "conflict_error =
     ''failed to create enrollment: '' @
       pq_Error (unique_violation ''volunteer_enrollments_volunteer_id_project_id_key'')"

definition conflict_response :: http_response where
  "conflict_response = http_Error StatusConflict
     ''This volunteer is already enrolled or has a pending enrollment for this project''"

definition sample_request :: CreateEnrollmentRequest where
  "sample_request =
     \<lparr>req_ProjectID = ''p1'', req_Action = ''request'', req_VolunteerID = None,
      req_Message = None\<rparr>"


definition sample_withdraw :: UpdateEnrollmentRequest where
  "sample_withdraw = \<lparr>upd_Action = ''withdraw'', upd_ResponseMessage = None\<rparr>"

text \<open>
  The claim set of a seeker and the demand set of a task: the (skill id, value) pairs
  that contribute to the vector. The position of a skill, counted from 0, is the
  absolute value of its hash modulo the dimension; \<open>values_at\<close> are the values of the
  skills of a set that fall on a position.
\<close>

definition claims :: "database \<Rightarrow> uuid \<Rightarrow> (uuid \<times> real) list" where
  "claims db volunteer_id =
     map (\<lambda>vs. (vs_skill_id vs, vs_score vs))
       (filter (\<lambda>vs. vs_volunteer_id vs = volunteer_id \<and> vs_claimed vs) (volunteer_skills db))"

definition demands :: "database \<Rightarrow> uuid \<Rightarrow> (uuid \<times> real) list" where
  "demands db project_id =
     map (\<lambda>ps. (ps_skill_id ps, ps_weight ps))
       (filter (\<lambda>ps. ps_project_id ps = project_id) (project_skills db))"

definition hash_position :: "pg_functions \<Rightarrow> int \<Rightarrow> uuid \<Rightarrow> nat" where
  "hash_position pg D skill_id = nat (\<bar>hashtext pg skill_id\<bar> mod D)"

definition values_at :: "pg_functions \<Rightarrow> int \<Rightarrow> (uuid \<times> real) list \<Rightarrow> nat \<Rightarrow> real list" where
  "values_at pg D pairs k = map snd (filter (\<lambda>c. hash_position pg D (fst c) = k) pairs)"

definition slot_of :: "pg_functions \<Rightarrow> int \<Rightarrow> (uuid \<times> real) list \<Rightarrow> nat \<Rightarrow> real" where
  "slot_of pg D pairs k =
     (if values_at pg D pairs k = [] then 0 else Max (set (values_at pg D pairs k)))"


text \<open>
  Stand-ins for the functions of PostgreSQL in the concrete instances (the theorems hold
  for every choice of them), and a database with skills: \<open>u1\<close> claims \<open>ab\<close> and
  \<open>abcd\<close>, which fall on one position of a vector of dimension 3, and has an unclaimed
  row for \<open>abc\<close>.
\<close>

definition sample_hashtext :: "string \<Rightarrow> int" where
  "sample_hashtext t = int (length t) - 3"

definition sample_cosine_distance :: "real list \<Rightarrow> real list \<Rightarrow> real" where
  "sample_cosine_distance a b =
     1 - (\<Sum>(x, y) \<leftarrow> zip a b. x * y) / sqrt ((\<Sum>x \<leftarrow> a. x * x) * (\<Sum>y \<leftarrow> b. y * y))"

definition sample_ST_Distance :: "real \<times> real \<Rightarrow> real \<times> real \<Rightarrow> real" where
  "sample_ST_Distance a b =
     1000 * haversine_distance_km (snd a) (fst a) (snd b) (fst b)"

definition sample_pg :: pg_functions where
  "sample_pg = \<lparr>hashtext = sample_hashtext, cosine_distance = sample_cosine_distance,
                ST_Distance = sample_ST_Distance\<rparr>"

definition skills_db :: database where
  "skills_db =
     \<lparr>users = [sample_volunteer, sample_coordinator], projects = [sample_project],
      skills = [\<lparr>s_id = ''ab'', s_name = ''Python''\<rparr>, \<lparr>s_id = ''abc'', s_name = ''Teaching''\<rparr>,
                \<lparr>s_id = ''abcd'', s_name = ''React''\<rparr>],
      volunteer_skills =
        [\<lparr>vs_volunteer_id = ''u1'', vs_skill_id = ''ab'', vs_claimed = True, vs_score = 0.8\<rparr>,
         \<lparr>vs_volunteer_id = ''u1'', vs_skill_id = ''abcd'', vs_claimed = True, vs_score = 0.6\<rparr>,
         \<lparr>vs_volunteer_id = ''u1'', vs_skill_id = ''abc'', vs_claimed = False, vs_score = 0.9\<rparr>],
      project_skills =
        [\<lparr>ps_project_id = ''p1'', ps_skill_id = ''abc'', ps_required = True, ps_weight = 0.9\<rparr>],
      volunteer_skill_vectors = [], volunteer_enrollments = [],
      project_volunteer_matches = [], has_postgis = False\<rparr>"





text \<open>
  The region policy in the words of the specification: two locations are in the same
  designated region when both are known and both contain, letter case ignored, one name
  of the configured list.
\<close>

definition region_names :: "string list" where
  "region_names =
     [''Canada'', ''Ontario'', ''Alberta'', ''British Columbia'', ''Quebec'', ''Manitoba'',
      ''Saskatchewan'', ''Nova Scotia'', ''New Brunswick'', ''Newfoundland'',
      ''Prince Edward Island'', ''Northwest Territories'', ''Yukon'', ''Nunavut'']"

definition same_designated_region :: "string list \<Rightarrow> string option \<Rightarrow> string option \<Rightarrow> bool" where
  "same_designated_region names a b =
     (case (a, b) of
        (Some x, Some y) \<Rightarrow>
          (\<exists>r \<in> set names. Contains (ToLower x) (ToLower r) \<and> Contains (ToLower y) (ToLower r))
      | _ \<Rightarrow> False)"


text \<open>The two rows the refresh computes from the sample database.\<close>

definition sample_match :: match_row where
  "sample_match =
     \<lparr>pvm_project_id = ''p1'', pvm_volunteer_id = ''u1'', pvm_skill_score = 0,
      pvm_distance_km = 0, pvm_combined_score = 0.3, pvm_matched_skills = []\<rparr>"

definition sample_match_abroad :: match_row where
  "sample_match_abroad =
     \<lparr>pvm_project_id = ''p2'', pvm_volunteer_id = ''u1'', pvm_skill_score = 0,
      pvm_distance_km = 0, pvm_combined_score = 0.6, pvm_matched_skills = []\<rparr>"


text \<open>The key of the match cache, on a row of \<open>volunteer_project_combinations\<close>.\<close>

definition combination_key :: "combination \<Rightarrow> uuid \<times> uuid" where
  "combination_key c = (c_project_id c, c_volunteer_id c)"




section \<open>Verification: enrollment state machine\<close>




lemma ID_update_row [simp]: "ID (update_row now s r e) = ID e"
  by (simp add: update_row_def)



lemma UpdateEnrollmentStatus_invalid:
  assumes "find (\<lambda>e. ID e = i) (volunteer_enrollments db) = Some row"
      and "newStatus (Status row) a = Inl err"
  shows "UpdateEnrollmentStatus db now i a msg = (Some err, db)"
  using assms by (simp add: UpdateEnrollmentStatus_def)

lemma UpdateEnrollmentStatus_not_found:
  assumes "find (\<lambda>e. ID e = i) (volunteer_enrollments db) = None"
  shows "UpdateEnrollmentStatus db now i a msg = (Some ''enrollment not found'', db)"
  using assms by (simp add: UpdateEnrollmentStatus_def)

lemma insert_violation_None:
  assumes "\<forall>r \<in> set (volunteer_enrollments db). ID r \<noteq> ID e"
      and "\<forall>r \<in> set (volunteer_enrollments db).
             \<not> (VolunteerID r = VolunteerID e \<and> ProjectID r = ProjectID e)"
      and "\<exists>u \<in> set (users db). u_id u = VolunteerID e"
      and "\<exists>p \<in> set (projects db). p_id p = ProjectID e"
      and "\<exists>u \<in> set (users db). u_id u = InitiatedBy e"
  shows "insert_violation db e = None"
  using assms unfolding insert_violation_def by auto

lemma insert_violation_pair:
  assumes "\<forall>r \<in> set (volunteer_enrollments db). ID r \<noteq> ID e"
      and "\<exists>r \<in> set (volunteer_enrollments db).
             VolunteerID r = VolunteerID e \<and> ProjectID r = ProjectID e"
  shows "insert_violation db e =
           Some (unique_violation ''volunteer_enrollments_volunteer_id_project_id_key'')"
  using assms unfolding insert_violation_def by auto

lemma conflict_error_detected:
  "Contains (ToLower conflict_error) ''duplicate key''"
  "Contains (ToLower conflict_error) ''volunteer_enrollments_volunteer_id_project_id_key''"
  by (simp_all add: conflict_error_def ToLower_def lower_char_def)

lemma CreateEnrollment_fresh:
  assumes "\<forall>r \<in> set (volunteer_enrollments db). ID r \<noteq> new_id"
      and "\<forall>r \<in> set (volunteer_enrollments db). \<not> (VolunteerID r = v \<and> ProjectID r = p)"
      and "\<exists>u \<in> set (users db). u_id u = v"
      and "\<exists>q \<in> set (projects db). p_id q = p"
      and "\<exists>u \<in> set (users db). u_id u = ib"
      and "e = \<lparr>ID = new_id, VolunteerID = v, ProjectID = p, Status = st, InitiatedBy = ib,
             Message = m, ResponseMessage = None, CreatedAt = now, UpdatedAt = now,
             ApprovedAt = None, CompletedAt = None\<rparr>"
  shows "insert_enrollment db new_id now v p st ib m =
           (Inr e, db\<lparr>volunteer_enrollments := volunteer_enrollments db @ [e]\<rparr>)"
proof -
  have "insert_violation db e = None"
    using assms by (intro insert_violation_None) simp_all
  then show ?thesis
    using assms(6) by (simp add: insert_enrollment_def Let_def)
qed

lemma CreateEnrollment_conflict:
  assumes "\<forall>r \<in> set (volunteer_enrollments db). ID r \<noteq> new_id"
      and "\<exists>r \<in> set (volunteer_enrollments db). VolunteerID r = v \<and> ProjectID r = p"
      and "action = ''request'' \<or> action = ''invite''"
  shows "CreateEnrollment db new_id now v p action message ib = (Inl conflict_error, db)"
proof -
  have "insert_violation db \<lparr>ID = new_id, VolunteerID = v, ProjectID = p, Status = st,
          InitiatedBy = ib, Message = m, ResponseMessage = None, CreatedAt = now,
          UpdatedAt = now, ApprovedAt = None, CompletedAt = None\<rparr> =
        Some (unique_violation ''volunteer_enrollments_volunteer_id_project_id_key'')" for st m
    using assms(1,2) by (intro insert_violation_pair) simp_all
  then show ?thesis
    using assms(3)
    by (auto simp: CreateEnrollment_def insert_enrollment_def conflict_error_def Let_def)
qed


lemma cannot_prefix: "HasPrefix (''cannot '' @ rest) ''cannot ''"
  by simp

lemma not_found_is_internal:
  "\<not> HasPrefix ''enrollment not found'' ''cannot ''"
  "\<not> Contains (ToLower ''enrollment not found'') ''invalid action''"
  by (simp_all add: ToLower_def lower_char_def)

lemma handler_update_invalid:
  assumes "UpdateEnrollmentStatus db now i (upd_Action req)
             (case upd_ResponseMessage req of None \<Rightarrow> [] | Some m \<Rightarrow> m) =
           (Some (''cannot '' @ rest), db)"
      and "upd_Action req \<in> {''accept'', ''reject'', ''withdraw''}"
  shows "EnrollmentHandler_UpdateEnrollmentStatus db now i (Some req) =
           (http_Error StatusBadRequest (''Bad request: cannot '' @ rest), db)"
  using assms cannot_prefix[of rest]
  by (auto simp: EnrollmentHandler_UpdateEnrollmentStatus_def Let_def)

lemma handler_update_not_found:
  assumes "UpdateEnrollmentStatus db now i (upd_Action req)
             (case upd_ResponseMessage req of None \<Rightarrow> [] | Some m \<Rightarrow> m) =
           (Some ''enrollment not found'', db)"
      and "upd_Action req \<in> {''accept'', ''reject'', ''withdraw''}"
  shows "EnrollmentHandler_UpdateEnrollmentStatus db now i (Some req) =
           (http_Error StatusInternalServerError
              ''Failed to update enrollment: enrollment not found'', db)"
  using assms not_found_is_internal
  by (auto simp: EnrollmentHandler_UpdateEnrollmentStatus_def Let_def)

text \<open>
  Claim C3. On a row in status \<open>enrolled\<close>, \<open>tl_rejected\<close> or \<open>v_rejected\<close>, each of
  accept, reject and withdraw fails with the error "cannot ACTION enrollment in status:
  STATUS", which names the action requested and the current status, and the database
  (so the row's status) is unchanged; the handler answers 400 Bad Request. On an
  unknown id the call fails with "enrollment not found", which is none of the former
  messages; the handler answers 500.
\<close>
theorem terminal_status_rejects_transitions:
  "(find (\<lambda>e. ID e = i) (volunteer_enrollments db) = Some row
      \<and> Status row \<in> {''enrolled'', ''tl_rejected'', ''v_rejected''}
      \<and> a \<in> {''accept'', ''reject'', ''withdraw''} \<longrightarrow>
    UpdateEnrollmentStatus db now i a msg =
      (Some (''cannot '' @ a @ '' enrollment in status: '' @ Status row), db)
    \<and> (upd_Action req = a \<longrightarrow>
         EnrollmentHandler_UpdateEnrollmentStatus db now i (Some req) =
           (http_Error StatusBadRequest
              (''Bad request: cannot '' @ a @ '' enrollment in status: '' @ Status row), db)))
   \<and> (find (\<lambda>e. ID e = i) (volunteer_enrollments db) = None \<longrightarrow>
    UpdateEnrollmentStatus db now i a msg = (Some ''enrollment not found'', db)
    \<and> ''enrollment not found'' \<noteq> ''cannot '' @ a' @ '' enrollment in status: '' @ s
    \<and> (upd_Action req = a \<and> a \<in> {''accept'', ''reject'', ''withdraw''} \<longrightarrow>
         EnrollmentHandler_UpdateEnrollmentStatus db now i (Some req) =
           (http_Error StatusInternalServerError
              ''Failed to update enrollment: enrollment not found'', db)))"
proof (intro conjI impI)
  assume h: "find (\<lambda>e. ID e = i) (volunteer_enrollments db) = Some row
      \<and> Status row \<in> {''enrolled'', ''tl_rejected'', ''v_rejected''}
      \<and> a \<in> {''accept'', ''reject'', ''withdraw''}"
  then have n: "newStatus (Status row) a =
      Inl (''cannot '' @ a @ '' enrollment in status: '' @ Status row)"
    by (auto simp: newStatus_def)
  with h show u: "UpdateEnrollmentStatus db now i a msg =
      (Some (''cannot '' @ a @ '' enrollment in status: '' @ Status row), db)" for msg
    by (simp add: UpdateEnrollmentStatus_invalid)
  assume "upd_Action req = a"
  with h u show "EnrollmentHandler_UpdateEnrollmentStatus db now i (Some req) =
           (http_Error StatusBadRequest
              (''Bad request: cannot '' @ a @ '' enrollment in status: '' @ Status row), db)"
    using handler_update_invalid[of db now i req "a @ '' enrollment in status: '' @ Status row"]
    by simp
next
  assume "find (\<lambda>e. ID e = i) (volunteer_enrollments db) = None"
  then show "UpdateEnrollmentStatus db now i a msg = (Some ''enrollment not found'', db)"
    by (rule UpdateEnrollmentStatus_not_found)
next
  show "''enrollment not found'' \<noteq> ''cannot '' @ a' @ '' enrollment in status: '' @ s"
    by simp
next
  assume "find (\<lambda>e. ID e = i) (volunteer_enrollments db) = None"
    and "upd_Action req = a \<and> a \<in> {''accept'', ''reject'', ''withdraw''}"
  then show "EnrollmentHandler_UpdateEnrollmentStatus db now i (Some req) =
           (http_Error StatusInternalServerError
              ''Failed to update enrollment: enrollment not found'', db)"
    by (intro handler_update_not_found) (simp_all add: UpdateEnrollmentStatus_not_found)
qed

theorem terminal_status_rejects_transitions_witness:
  "find (\<lambda>e. ID e = ''e1'') (volunteer_enrollments (sample_db [sample_enrollment ''enrolled'']))
     = Some (sample_enrollment ''enrolled'')
   \<and> Status (sample_enrollment ''enrolled'') \<in> {''enrolled'', ''tl_rejected'', ''v_rejected''}
   \<and> ''withdraw'' \<in> {''accept'', ''reject'', ''withdraw''}
   \<and> UpdateEnrollmentStatus (sample_db [sample_enrollment ''enrolled'']) 7 ''e1'' ''withdraw'' []
       = (Some ''cannot withdraw enrollment in status: enrolled'',
          sample_db [sample_enrollment ''enrolled''])
   \<and> EnrollmentHandler_UpdateEnrollmentStatus (sample_db [sample_enrollment ''enrolled'']) 7
         ''e1'' (Some sample_withdraw)
       = (http_Error StatusBadRequest
            ''Bad request: cannot withdraw enrollment in status: enrolled'',
          sample_db [sample_enrollment ''enrolled''])
   \<and> find (\<lambda>e. ID e = ''e9'') (volunteer_enrollments (sample_db [sample_enrollment ''enrolled'']))
     = None
   \<and> UpdateEnrollmentStatus (sample_db [sample_enrollment ''enrolled'']) 7 ''e9'' ''withdraw'' []
       = (Some ''enrollment not found'', sample_db [sample_enrollment ''enrolled''])
   \<and> EnrollmentHandler_UpdateEnrollmentStatus (sample_db [sample_enrollment ''enrolled'']) 7
         ''e9'' (Some sample_withdraw)
       = (http_Error StatusInternalServerError
            ''Failed to update enrollment: enrollment not found'',
          sample_db [sample_enrollment ''enrolled''])"
  using terminal_status_rejects_transitions
          [where i = "''e1''" and db = "sample_db [sample_enrollment ''enrolled'']"
             and row = "sample_enrollment ''enrolled''" and a = "''withdraw''" and now = 7
             and msg = "[]" and req = sample_withdraw]
        terminal_status_rejects_transitions
          [where i = "''e9''" and db = "sample_db [sample_enrollment ''enrolled'']"
             and row = "sample_enrollment ''enrolled''" and a = "''withdraw''" and now = 7
             and msg = "[]" and req = sample_withdraw]
  by (simp add: sample_db_def sample_enrollment_def sample_withdraw_def)


lemma handler_conflict:
  assumes "CreateEnrollment db new_id now v (req_ProjectID req) (req_Action req)
             (case req_Message req of None \<Rightarrow> [] | Some m \<Rightarrow> m) userID = (Inl conflict_error, db)"
      and "userID \<noteq> []"
      and "req_Action req = ''request'' \<or> req_Action req = ''invite''"
      and "if req_Action req = ''invite'' then req_VolunteerID req = Some v \<and> v \<noteq> []
           else userID = v"
  shows "EnrollmentHandler_CreateEnrollment db new_id now (Some req) userID =
           (conflict_response, db)"
  using assms conflict_error_detected
  by (auto simp: EnrollmentHandler_CreateEnrollment_def conflict_response_def Let_def
           split: if_splits)

lemma handler_created:
  assumes "CreateEnrollment db new_id now userID (req_ProjectID req) ''request''
             (case req_Message req of None \<Rightarrow> [] | Some m \<Rightarrow> m) userID = (Inr e, db')"
      and "userID \<noteq> []"
      and "req_Action req = ''request''"
  shows "EnrollmentHandler_CreateEnrollment db new_id now (Some req) userID = (http_JSON e, db')"
  using assms
  by (simp add: EnrollmentHandler_CreateEnrollment_def Let_def)

text \<open>
  Claim C4. When a row exists for the pair (volunteer, project), whatever its status, a
  further initiation with action request or invite fails: the service returns the
  unique-violation error, the handler answers 409 Conflict, and the database is
  unchanged. On a pair with no row (volunteer, project and initiator on file), action
  request succeeds and appends a row in status \<open>requested\<close>. The id drawn for the new
  row is assumed fresh.
\<close>
theorem second_initiate_conflicts:
  "((\<forall>r \<in> set (volunteer_enrollments db). ID r \<noteq> new_id)
      \<and> (\<exists>r \<in> set (volunteer_enrollments db). VolunteerID r = v \<and> ProjectID r = p)
      \<and> (action = ''request'' \<or> action = ''invite'') \<longrightarrow>
    CreateEnrollment db new_id now v p action message ib = (Inl conflict_error, db)
    \<and> (userID \<noteq> [] \<and> req_Action req = action \<and> req_ProjectID req = p
         \<and> (if action = ''invite'' then req_VolunteerID req = Some v \<and> v \<noteq> []
             else userID = v) \<longrightarrow>
       EnrollmentHandler_CreateEnrollment db new_id now (Some req) userID =
         (conflict_response, db)))
   \<and> ((\<forall>r \<in> set (volunteer_enrollments db). ID r \<noteq> new_id)
      \<and> (\<forall>r \<in> set (volunteer_enrollments db). \<not> (VolunteerID r = v \<and> ProjectID r = p))
      \<and> (\<exists>u \<in> set (users db). u_id u = v)
      \<and> (\<exists>q \<in> set (projects db). p_id q = p)
      \<and> (\<exists>u \<in> set (users db). u_id u = ib) \<longrightarrow>
    (\<exists>e. CreateEnrollment db new_id now v p ''request'' message ib =
            (Inr e, db\<lparr>volunteer_enrollments := volunteer_enrollments db @ [e]\<rparr>)
          \<and> Status e = ''requested'' \<and> VolunteerID e = v \<and> ProjectID e = p
          \<and> (userID = v \<and> ib = v \<and> v \<noteq> [] \<and> req_Action req = ''request''
                \<and> req_ProjectID req = p
                \<and> message = (case req_Message req of None \<Rightarrow> [] | Some m \<Rightarrow> m) \<longrightarrow>
              EnrollmentHandler_CreateEnrollment db new_id now (Some req) userID =
                (http_JSON e, db\<lparr>volunteer_enrollments := volunteer_enrollments db @ [e]\<rparr>))))"
proof (intro conjI impI)
  assume h: "(\<forall>r \<in> set (volunteer_enrollments db). ID r \<noteq> new_id)
      \<and> (\<exists>r \<in> set (volunteer_enrollments db). VolunteerID r = v \<and> ProjectID r = p)
      \<and> (action = ''request'' \<or> action = ''invite'')"
  then show c: "CreateEnrollment db new_id now v p action message ib = (Inl conflict_error, db)"
    by (intro CreateEnrollment_conflict) simp_all
  assume r: "userID \<noteq> [] \<and> req_Action req = action \<and> req_ProjectID req = p
         \<and> (if action = ''invite'' then req_VolunteerID req = Some v \<and> v \<noteq> []
             else userID = v)"
  have "CreateEnrollment db new_id now v (req_ProjectID req) (req_Action req)
             (case req_Message req of None \<Rightarrow> [] | Some m \<Rightarrow> m) userID = (Inl conflict_error, db)"
    using h r by (intro CreateEnrollment_conflict) simp_all
  then show "EnrollmentHandler_CreateEnrollment db new_id now (Some req) userID =
         (conflict_response, db)"
    using h r by (intro handler_conflict[where v = v]) (auto split: if_splits)
next
  assume h: "(\<forall>r \<in> set (volunteer_enrollments db). ID r \<noteq> new_id)
      \<and> (\<forall>r \<in> set (volunteer_enrollments db). \<not> (VolunteerID r = v \<and> ProjectID r = p))
      \<and> (\<exists>u \<in> set (users db). u_id u = v)
      \<and> (\<exists>q \<in> set (projects db). p_id q = p)
      \<and> (\<exists>u \<in> set (users db). u_id u = ib)"
  define e where "e = \<lparr>ID = new_id, VolunteerID = v, ProjectID = p, Status = ''requested'',
       InitiatedBy = ib, Message = (if message \<noteq> [] then Some message else None),
       ResponseMessage = None, CreatedAt = now,
       UpdatedAt = now, ApprovedAt = None, CompletedAt = None\<rparr>"
  have "insert_enrollment db new_id now v p ''requested'' ib
          (if message \<noteq> [] then Some message else None) =
           (Inr e, db\<lparr>volunteer_enrollments := volunteer_enrollments db @ [e]\<rparr>)"
    using h by (intro CreateEnrollment_fresh) (simp_all add: e_def)
  then have c: "CreateEnrollment db new_id now v p ''request'' message ib =
          (Inr e, db\<lparr>volunteer_enrollments := volunteer_enrollments db @ [e]\<rparr>)"
    by (simp add: CreateEnrollment_def Let_def)
  have "userID = v \<and> ib = v \<and> v \<noteq> [] \<and> req_Action req = ''request''
                \<and> req_ProjectID req = p
                \<and> message = (case req_Message req of None \<Rightarrow> [] | Some m \<Rightarrow> m) \<longrightarrow>
              EnrollmentHandler_CreateEnrollment db new_id now (Some req) userID =
                (http_JSON e, db\<lparr>volunteer_enrollments := volunteer_enrollments db @ [e]\<rparr>)"
    using c by (auto intro!: handler_created)
  with c show "\<exists>e. CreateEnrollment db new_id now v p ''request'' message ib =
            (Inr e, db\<lparr>volunteer_enrollments := volunteer_enrollments db @ [e]\<rparr>)
          \<and> Status e = ''requested'' \<and> VolunteerID e = v \<and> ProjectID e = p
          \<and> (userID = v \<and> ib = v \<and> v \<noteq> [] \<and> req_Action req = ''request''
                \<and> req_ProjectID req = p
                \<and> message = (case req_Message req of None \<Rightarrow> [] | Some m \<Rightarrow> m) \<longrightarrow>
              EnrollmentHandler_CreateEnrollment db new_id now (Some req) userID =
                (http_JSON e, db\<lparr>volunteer_enrollments := volunteer_enrollments db @ [e]\<rparr>))"
    by (intro exI[of _ e]) (simp add: e_def)
qed

theorem second_initiate_conflicts_witness:
  "''e2'' \<notin> set (map ID (volunteer_enrollments (sample_db [sample_enrollment ''tl_rejected''])))
   \<and> (\<exists>r \<in> set (volunteer_enrollments (sample_db [sample_enrollment ''tl_rejected''])).
         VolunteerID r = ''u1'' \<and> ProjectID r = ''p1'')
   \<and> CreateEnrollment (sample_db [sample_enrollment ''tl_rejected'']) ''e2'' 9 ''u1'' ''p1''
        ''request'' [] ''u1'' = (Inl conflict_error, sample_db [sample_enrollment ''tl_rejected''])
   \<and> EnrollmentHandler_CreateEnrollment (sample_db [sample_enrollment ''tl_rejected'']) ''e2'' 9
        (Some sample_request) ''u1''
       = (conflict_response, sample_db [sample_enrollment ''tl_rejected''])
   \<and> ''e1'' \<notin> set (map ID (volunteer_enrollments (sample_db [])))
   \<and> (\<exists>e. EnrollmentHandler_CreateEnrollment (sample_db []) ''e1'' 1 (Some sample_request) ''u1''
             = (http_JSON e, sample_db [e]) \<and> Status e = ''requested'')"
proof -
  let ?db = "sample_db [sample_enrollment ''tl_rejected'']"
  have a: "(\<forall>r \<in> set (volunteer_enrollments ?db). ID r \<noteq> ''e2'')
     \<and> (\<exists>r \<in> set (volunteer_enrollments ?db). VolunteerID r = ''u1'' \<and> ProjectID r = ''p1'')"
    by (simp add: sample_db_def sample_enrollment_def)
  have b: "CreateEnrollment ?db ''e2'' 9 ''u1'' ''p1'' ''request'' [] ''u1'' = (Inl conflict_error, ?db)
     \<and> EnrollmentHandler_CreateEnrollment ?db ''e2'' 9 (Some sample_request) ''u1''
       = (conflict_response, ?db)"
    using a second_initiate_conflicts
      [where db = ?db and new_id = "''e2''" and v = "''u1''" and p = "''p1''"
         and action = "''request''" and userID = "''u1''" and req = sample_request
         and now = 9 and message = "[]" and ib = "''u1''"]
    by (simp add: sample_request_def)
  have c: "\<forall>r \<in> set (volunteer_enrollments (sample_db [])). ID r \<noteq> ''e1''"
    by (simp add: sample_db_def)
  have "\<exists>e. EnrollmentHandler_CreateEnrollment (sample_db []) ''e1'' 1 (Some sample_request) ''u1''
             = (http_JSON e, (sample_db [])\<lparr>volunteer_enrollments :=
                  volunteer_enrollments (sample_db []) @ [e]\<rparr>) \<and> Status e = ''requested''"
    using second_initiate_conflicts
      [where db = "sample_db []" and new_id = "''e1''" and v = "''u1''" and p = "''p1''"
         and userID = "''u1''" and req = sample_request
         and now = 1 and message = "[]" and ib = "''u1''"]
    by (auto simp: sample_request_def sample_db_def sample_volunteer_def
          sample_coordinator_def sample_project_def)
  then have d: "\<exists>e. EnrollmentHandler_CreateEnrollment (sample_db []) ''e1'' 1 (Some sample_request) ''u1''
             = (http_JSON e, sample_db [e]) \<and> Status e = ''requested''"
    by (auto simp: sample_db_def)
  from a b c d show ?thesis by auto
qed
section \<open>Verification: skill vector builder\<close>

lemma skill_position_hash:
  "1 \<le> D \<Longrightarrow> skill_position pg sid D = int (hash_position pg D sid) + 1"
proof -
  assume D: "1 \<le> D"
  have "\<bar>hashtext pg sid smod D\<bar> = \<bar>hashtext pg sid\<bar> mod D"
  proof (cases "hashtext pg sid = 0")
    case True
    then show ?thesis by (simp add: signed_modulo_int_def)
  next
    case False
    then have "\<bar>sgn (hashtext pg sid)\<bar> = 1" by (simp add: abs_sgn_eq)
    moreover have "0 \<le> \<bar>hashtext pg sid\<bar> mod D" using D by simp
    ultimately show ?thesis using D by (simp add: signed_modulo_int_def abs_mult)
  qed
  moreover have "0 \<le> \<bar>hashtext pg sid\<bar> mod D" using D by simp
  ultimately show ?thesis
    by (simp add: skill_position_def hash_position_def)
qed

lemma values_at_positions:
  assumes "1 \<le> D"
  shows "map snd (filter (\<lambda>sp. fst sp = int k + 1)
           (map (\<lambda>c. (skill_position pg (fst c) D, snd c)) pairs)) = values_at pg D pairs k"
  using assms
  by (induction pairs) (auto simp: values_at_def skill_position_hash)

lemma all_positions_eq:
  assumes "1 \<le> D"
  shows "all_positions (map (\<lambda>c. (skill_position pg (fst c) D, snd c)) pairs) D =
           map (slot_of pg D pairs) [0..<nat D]"
proof (rule nth_equalityI)
  show "length (all_positions (map (\<lambda>c. (skill_position pg (fst c) D, snd c)) pairs) D) =
        length (map (slot_of pg D pairs) [0..<nat D])"
    using assms by (simp add: all_positions_def)
next
  fix k assume "k < length (all_positions (map (\<lambda>c. (skill_position pg (fst c) D, snd c)) pairs) D)"
  then have k: "k < nat D" using assms by (simp add: all_positions_def)
  then have "[1..D] ! k = 1 + int k" by (intro nth_upto) simp
  then show "all_positions (map (\<lambda>c. (skill_position pg (fst c) D, snd c)) pairs) D ! k =
        map (slot_of pg D pairs) [0..<nat D] ! k"
    using k assms values_at_positions[OF assms, of k pg pairs]
    by (simp add: all_positions_def slot_value_def slot_of_def Let_def add.commute)
qed

lemma get_volunteer_skill_vector_eq:
  "1 \<le> D \<Longrightarrow> get_volunteer_skill_vector pg db vid D =
     Some (map (slot_of pg D (claims db vid)) [0..<nat D])"
  using all_positions_eq[of D pg "claims db vid"]
  by (simp add: get_volunteer_skill_vector_def claims_def comp_def)

lemma get_project_skill_vector_eq:
  "1 \<le> D \<Longrightarrow> get_project_skill_vector pg db pid D =
     Some (map (slot_of pg D (demands db pid)) [0..<nat D])"
  using all_positions_eq[of D pg "demands db pid"]
  by (simp add: get_project_skill_vector_def demands_def comp_def)

lemma hash_position_less: "1 \<le> D \<Longrightarrow> hash_position pg D sid < nat D"
  by (simp add: hash_position_def nat_less_iff)

lemma slot_of_ge:
  "(sid, v) \<in> set pairs \<Longrightarrow> v \<le> slot_of pg D pairs (hash_position pg D sid)"
proof -
  assume "(sid, v) \<in> set pairs"
  then have "v \<in> set (values_at pg D pairs (hash_position pg D sid))"
    by (force simp: values_at_def)
  then show ?thesis
    by (auto simp: slot_of_def intro: Max_ge)
qed

text \<open>
  Claim C8. For a dimension \<open>D \<ge> 1\<close> both builders return a vector of length \<open>D\<close>. Every
  contributing skill has a position \<open>hash_position pg D skill_id\<close> below \<open>D\<close>, computed
  by the same function for seekers and tasks; the slot at a position holds the maximum
  of the values of the skills that fall on it, and 0 when none does; an empty claim or
  demand set gives the all-zero vector.
\<close>
theorem skill_vector_builder:
  assumes "1 \<le> D"
  shows "\<exists>vv pv.
      get_volunteer_skill_vector pg db vid D = Some vv
    \<and> get_project_skill_vector pg db pid D = Some pv
    \<and> length vv = nat D \<and> length pv = nat D
    \<and> (\<forall>c \<in> set (claims db vid) \<union> set (demands db pid). hash_position pg D (fst c) < nat D)
    \<and> (\<forall>k < nat D. vv ! k =
          (if values_at pg D (claims db vid) k = [] then 0
           else Max (set (values_at pg D (claims db vid) k))))
    \<and> (\<forall>k < nat D. pv ! k =
          (if values_at pg D (demands db pid) k = [] then 0
           else Max (set (values_at pg D (demands db pid) k))))
    \<and> (claims db vid = [] \<longrightarrow> vv = replicate (nat D) 0)
    \<and> (demands db pid = [] \<longrightarrow> pv = replicate (nat D) 0)"
proof -
  let ?vv = "map (slot_of pg D (claims db vid)) [0..<nat D]"
  let ?pv = "map (slot_of pg D (demands db pid)) [0..<nat D]"
  have z: "pairs = [] \<Longrightarrow> map (slot_of pg D pairs) [0..<n] = replicate n 0" for pairs n
    by (induction n) (simp_all add: slot_of_def values_at_def replicate_append_same)
  have "get_volunteer_skill_vector pg db vid D = Some ?vv"
    using assms by (rule get_volunteer_skill_vector_eq)
  moreover have "get_project_skill_vector pg db pid D = Some ?pv"
    using assms by (rule get_project_skill_vector_eq)
  moreover have "\<forall>c \<in> set (claims db vid) \<union> set (demands db pid).
      hash_position pg D (fst c) < nat D"
    using assms by (simp add: hash_position_less)
  moreover have "\<forall>k < nat D. ?vv ! k =
          (if values_at pg D (claims db vid) k = [] then 0
           else Max (set (values_at pg D (claims db vid) k)))"
    by (simp add: slot_of_def)
  moreover have "\<forall>k < nat D. ?pv ! k =
          (if values_at pg D (demands db pid) k = [] then 0
           else Max (set (values_at pg D (demands db pid) k)))"
    by (simp add: slot_of_def)
  moreover have "claims db vid = [] \<longrightarrow> ?vv = replicate (nat D) 0"
    using z by simp
  moreover have "demands db pid = [] \<longrightarrow> ?pv = replicate (nat D) 0"
    using z by simp
  ultimately show ?thesis
    by (intro exI[of _ ?vv] exI[of _ ?pv]) simp
qed

lemma claims_skills_db:
  "claims skills_db ''u1'' = [(''ab'', 0.8), (''abcd'', 0.6)]"
  "demands skills_db ''p1'' = [(''abc'', 0.9)]"
  by (simp_all add: claims_def demands_def skills_db_def)

lemma sample_positions:
  "hash_position sample_pg 3 ''ab'' = 1" "hash_position sample_pg 3 ''abcd'' = 1"
  "hash_position sample_pg 3 ''abc'' = 0"
  by (simp_all add: hash_position_def sample_pg_def sample_hashtext_def)

theorem skill_vector_builder_witness:
  "(1::int) \<le> 3
   \<and> get_volunteer_skill_vector sample_pg skills_db ''u1'' 3 = Some [0, 0.8, 0]
   \<and> get_project_skill_vector sample_pg skills_db ''p1'' 3 = Some [0.9, 0, 0]
   \<and> get_project_skill_vector sample_pg skills_db ''p0'' 3 = Some [0, 0, 0]"
proof -
  obtain vv pv where
        v: "get_volunteer_skill_vector sample_pg skills_db ''u1'' 3 = Some vv"
    and p: "get_project_skill_vector sample_pg skills_db ''p1'' 3 = Some pv"
    and l: "length vv = nat 3" "length pv = nat 3"
    and vk: "\<forall>k < nat 3. vv ! k =
          (if values_at sample_pg 3 (claims skills_db ''u1'') k = [] then 0
           else Max (set (values_at sample_pg 3 (claims skills_db ''u1'') k)))"
    and pk: "\<forall>k < nat 3. pv ! k =
          (if values_at sample_pg 3 (demands skills_db ''p1'') k = [] then 0
           else Max (set (values_at sample_pg 3 (demands skills_db ''p1'') k)))"
    using skill_vector_builder[of 3 sample_pg skills_db "''u1''" "''p1''"] by auto
  have "vv ! 0 = 0" "vv ! 1 = 0.8" "vv ! 2 = 0"
    using vk by (simp_all add: claims_skills_db values_at_def sample_positions)
  then have "vv = [0, 0.8, 0]"
    using l(1) by (intro nth_equalityI) (auto simp: less_Suc_eq numeral_3_eq_3 numeral_2_eq_2)
  moreover have "pv ! 0 = 0.9" "pv ! 1 = 0" "pv ! 2 = 0"
    using pk by (simp_all add: claims_skills_db values_at_def sample_positions)
  then have "pv = [0.9, 0, 0]"
    using l(2) by (intro nth_equalityI) (auto simp: less_Suc_eq numeral_3_eq_3 numeral_2_eq_2)
  moreover obtain pv0 where
        "get_project_skill_vector sample_pg skills_db ''p0'' 3 = Some pv0"
        "demands skills_db ''p0'' = [] \<longrightarrow> pv0 = replicate (nat 3) 0"
    using skill_vector_builder[of 3 sample_pg skills_db "''u1''" "''p0''"] by auto
  then have "get_project_skill_vector sample_pg skills_db ''p0'' 3 = Some [0, 0, 0]"
    by (simp add: demands_def skills_db_def numeral_3_eq_3)
  ultimately show ?thesis using v p by simp
qed

section \<open>Verification: similarity scorer\<close>






section \<open>Verification: tiered match ranker and batch refresh\<close>

lemma sql_or_True: "sql_or a b = Some True \<longleftrightarrow> a = Some True \<or> b = Some True"
  by (auto simp: sql_or_def)

lemma both_ILIKE_True:
  "both_ILIKE p u r = Some True \<longleftrightarrow>
     (\<exists>x y. p = Some x \<and> u = Some y
        \<and> Contains (ToLower x) (ToLower r) \<and> Contains (ToLower y) (ToLower r))"
  by (auto simp: both_ILIKE_def sql_and_def ILIKE_def split: option.splits)

lemma national_exception_region:
  "national_exception p u = Some True \<longleftrightarrow> same_designated_region region_names p u"
  unfolding national_exception_def sql_or_True both_ILIKE_True
  by (cases p; cases u) (simp_all add: same_designated_region_def region_names_def)

lemma in_combinations:
  "c \<in> set (volunteer_project_combinations pg db) \<longleftrightarrow>
     (\<exists>p \<in> set (projects db). \<exists>u \<in> set (users db). \<exists>vsv \<in> set (left_join_vsv db (u_id u)).
        p_status p = ''active'' \<and> u_role u = ''volunteer''
        \<and> u_latitude u \<noteq> None \<and> u_longitude u \<noteq> None
        \<and> \<not> tier1_exists db u p
        \<and> c = combination_of pg db p u vsv)"
  unfolding volunteer_project_combinations_def
  by (auto split: if_splits)

lemma in_selected_matches:
  "m \<in> set (selected_matches pg db) \<longleftrightarrow>
     (\<exists>c \<in> set (volunteer_project_combinations pg db).
        c_distance_km c \<le> 500 \<and> tier2_combined_score c > 0.1 \<and> m = tiered_match c)"
  unfolding selected_matches_def tiered_matches_def
  by (auto simp: tiered_match_def)

lemma refresh_cache:
  "refresh_all_matches pg db = Inr (n, db') \<Longrightarrow>
     project_volunteer_matches db' = selected_matches pg db
     \<and> n = int (length (selected_matches pg db))"
  by (auto simp: refresh_all_matches_def Let_def split: if_splits)

text \<open>
  The refresh succeeds whenever the ids of the projects, of the users and of the stored
  vectors are unique, as their primary keys make them: the rows selected are then
  pairwise distinct on (project_id, volunteer_id).
\<close>

lemma distinct_map_sort_key:
  "distinct (map g (sort_key f xs)) = distinct (map g xs)"
  by (simp add: distinct_map)

lemma filter_key_at_most_one:
  "distinct (map f xs) \<Longrightarrow> length (filter (\<lambda>x. f x = k) xs) \<le> Suc 0"
proof (induction xs)
  case Nil
  then show ?case by simp
next
  case (Cons a xs)
  show ?case
  proof (cases "f a = k")
    case True
    have "f a \<notin> f ` set xs"
      using Cons.prems by simp
    then have "\<forall>x \<in> set xs. f x \<noteq> k"
      using True by (metis imageI)
    then have "filter (\<lambda>x. f x = k) xs = []"
      by (simp add: filter_empty_conv)
    with True show ?thesis by simp
  next
    case False
    with Cons show ?thesis by simp
  qed
qed

lemma left_join_vsv_single:
  assumes "distinct (map fst (volunteer_skill_vectors db))"
  shows "\<exists>vsv. left_join_vsv db i = [vsv]"
proof -
  let ?ms = "filter (\<lambda>r. fst r = i) (volunteer_skill_vectors db)"
  have "length ?ms \<le> Suc 0"
    using assms by (rule filter_key_at_most_one)
  then show ?thesis
    by (cases ?ms) (auto simp: left_join_vsv_def Let_def)
qed

lemma distinct_keys_concat:
  assumes "distinct (map f xs)"
      and "\<And>x. x \<in> set xs \<Longrightarrow> distinct (map k (G x))"
      and "\<And>x y. x \<in> set xs \<Longrightarrow> y \<in> set (G x) \<Longrightarrow> h (k y) = f x"
  shows "distinct (map k (concat (map G xs)))"
  using assms
proof (induction xs)
  case Nil
  then show ?case by simp
next
  case (Cons x xs)
  have d: "distinct (map k (concat (map G xs)))"
    using Cons by simp
  have "k y \<noteq> k z" if "y \<in> set (G x)" "z \<in> set (concat (map G xs))" for y z
  proof -
    from that(2) obtain x' where x': "x' \<in> set xs" "z \<in> set (G x')" by auto
    have "h (k y) = f x" using Cons.prems(3)[of x y] that(1) by simp
    moreover have "h (k z) = f x'" using Cons.prems(3)[of x' z] x' by simp
    moreover have "f x \<noteq> f x'" using Cons.prems(1) x'(1) by auto
    ultimately show ?thesis by metis
  qed
  then have "set (map k (G x)) \<inter> set (map k (concat (map G xs))) = {}"
    by (auto simp del: set_concat)
  with d Cons.prems(2)[of x] show ?case
    by (simp del: set_concat set_map)
qed

lemma combinations_distinct:
  assumes "distinct (map p_id (projects db))" "distinct (map u_id (users db))"
      and "distinct (map fst (volunteer_skill_vectors db))"
  shows "distinct (map combination_key (volunteer_project_combinations pg db))"
  unfolding volunteer_project_combinations_def
proof (rule distinct_keys_concat[where f = p_id and h = fst])
  show "distinct (map p_id (projects db))" by (rule assms(1))
next
  fix p :: project_row
  show "distinct (map combination_key (concat (map (\<lambda>u.
          if p_status p = ''active'' \<and> u_role u = ''volunteer'' \<and> u_latitude u \<noteq> None
             \<and> u_longitude u \<noteq> None \<and> \<not> tier1_exists db u p
          then map (combination_of pg db p u) (left_join_vsv db (u_id u)) else [])
          (users db))))"
  proof (rule distinct_keys_concat[where f = u_id and h = snd])
    show "distinct (map u_id (users db))" by (rule assms(2))
  next
    fix u :: user_row
    obtain vsv where "left_join_vsv db (u_id u) = [vsv]"
      using left_join_vsv_single[OF assms(3)] by blast
    then show "distinct (map combination_key
        (if p_status p = ''active'' \<and> u_role u = ''volunteer'' \<and> u_latitude u \<noteq> None
             \<and> u_longitude u \<noteq> None \<and> \<not> tier1_exists db u p
          then map (combination_of pg db p u) (left_join_vsv db (u_id u)) else []))"
      by simp
  next
    fix u :: user_row and y
    assume "y \<in> set (if p_status p = ''active'' \<and> u_role u = ''volunteer'' \<and> u_latitude u \<noteq> None
             \<and> u_longitude u \<noteq> None \<and> \<not> tier1_exists db u p
          then map (combination_of pg db p u) (left_join_vsv db (u_id u)) else [])"
    then show "snd (combination_key y) = u_id u"
      by (auto simp: combination_key_def combination_of_def split: if_splits)
  qed
next
  fix p :: project_row and y
  assume "y \<in> set (concat (map (\<lambda>u.
          if p_status p = ''active'' \<and> u_role u = ''volunteer'' \<and> u_latitude u \<noteq> None
             \<and> u_longitude u \<noteq> None \<and> \<not> tier1_exists db u p
          then map (combination_of pg db p u) (left_join_vsv db (u_id u)) else [])
          (users db)))"
  then show "fst (combination_key y) = p_id p"
    by (auto simp: combination_key_def combination_of_def split: if_splits)
qed

lemma refresh_succeeds:
  assumes "distinct (map p_id (projects db))" "distinct (map u_id (users db))"
      and "distinct (map fst (volunteer_skill_vectors db))"
  shows "refresh_all_matches pg db =
           Inr (int (length (selected_matches pg db)),
                db\<lparr>project_volunteer_matches := selected_matches pg db\<rparr>)"
proof -
  have k: "(\<lambda>m. (pvm_project_id m, pvm_volunteer_id m)) \<circ> tiered_match = combination_key"
    by (auto simp: tiered_match_def combination_key_def)
  have "distinct (map combination_key (volunteer_project_combinations pg db))"
    using assms by (rule combinations_distinct)
  then have "distinct (map combination_key
      (filter (\<lambda>c. c_distance_km c \<le> 500) (volunteer_project_combinations pg db)))"
    by (rule distinct_map_filter)
  then have "distinct (map (\<lambda>m. (pvm_project_id m, pvm_volunteer_id m))
                (tiered_matches (volunteer_project_combinations pg db)))"
    by (simp add: tiered_matches_def k)
  then have "distinct (map (\<lambda>m. (pvm_project_id m, pvm_volunteer_id m))
                (filter (\<lambda>m. pvm_combined_score m > 0.1)
                   (tiered_matches (volunteer_project_combinations pg db))))"
    by (rule distinct_map_filter)
  then have "distinct (map (\<lambda>m. (pvm_project_id m, pvm_volunteer_id m)) (selected_matches pg db))"
    unfolding selected_matches_def distinct_map_sort_key .
  then show ?thesis
    by (simp add: refresh_all_matches_def Let_def)
qed

lemma sample_national_exception:
  "national_exception (Some ''Ottawa, Ontario'') (Some ''Ottawa, Ontario, Canada'') = Some True"
  "national_exception (Some ''Buffalo, NY'') (Some ''Ottawa, Ontario, Canada'') \<noteq> Some True"
  "national_exception None (Some ''Ottawa, Ontario, Canada'') \<noteq> Some True"
  by (simp_all add: national_exception_region same_designated_region_def region_names_def
        ToLower_def lower_char_def)

lemma sample_combinations:
  "(\<forall>ve \<in> set es. Status ve \<noteq> ''active'') \<Longrightarrow>
   volunteer_project_combinations pg (sample_db es) =
     [\<lparr>c_project_id = ''p1'', c_volunteer_id = ''u1'',
       c_p_location = Some ''Ottawa, Ontario'', c_u_location = Some ''Ottawa, Ontario, Canada'',
       c_skill_score = 0, c_distance_km = 0, c_matched_skills = []\<rparr>,
      \<lparr>c_project_id = ''p2'', c_volunteer_id = ''u1'',
       c_p_location = Some ''Buffalo, NY'', c_u_location = Some ''Ottawa, Ontario, Canada'',
       c_skill_score = 0, c_distance_km = 0, c_matched_skills = []\<rparr>,
      \<lparr>c_project_id = ''p3'', c_volunteer_id = ''u1'',
       c_p_location = None, c_u_location = Some ''Ottawa, Ontario, Canada'',
       c_skill_score = 0, c_distance_km = 999999, c_matched_skills = []\<rparr>]"
  by (auto simp: volunteer_project_combinations_def sample_db_def sample_volunteer_def
        sample_coordinator_def sample_nowhere_def sample_project_def
        sample_project_abroad_def sample_project_nowhere_def tier1_exists_def
        left_join_vsv_def combination_of_def batch_skill_score_def batch_distance_km_def
        matched_skills_def radians_def)

lemma sample_selected:
  "(\<forall>ve \<in> set es. Status ve \<noteq> ''active'') \<Longrightarrow>
   selected_matches pg (sample_db es) = [sample_match_abroad, sample_match]"
  by (simp add: selected_matches_def tiered_matches_def tiered_match_def sample_combinations
        tier2_combined_score_def sample_national_exception sample_match_def
        sample_match_abroad_def)

lemma sample_refresh:
  "(\<forall>ve \<in> set es. Status ve \<noteq> ''active'') \<Longrightarrow>
   refresh_all_matches pg (sample_db es) =
     Inr (2, (sample_db es)\<lparr>project_volunteer_matches := [sample_match_abroad, sample_match]\<rparr>)"
  by (simp add: refresh_all_matches_def sample_selected)
     (simp add: sample_match_def sample_match_abroad_def)

lemma tier1_never_fires:
  "(\<forall>ve \<in> set (volunteer_enrollments db).
      Status ve \<in> {''requested'', ''invited'', ''enrolled'', ''tl_rejected'', ''v_rejected''})
   \<Longrightarrow> \<not> tier1_exists db u p"
  by (auto simp: tier1_exists_def)

text \<open>
  Claim C1 (the code departs from it). Tier 1 means to exclude the pairs already
  enrolled, but its subquery looks for status \<open>active\<close>, which the enrollment state
  machine never stores (\<open>tier1_never_fires\<close>). At the sample database with an enrollment
  of volunteer \<open>u1\<close> in project \<open>p1\<close> in status \<open>enrolled\<close>, the refreshed cache still
  holds the match record of that pair.
\<close>
theorem enrolled_pair_still_matched:
  "Status (sample_enrollment ''enrolled'') = ''enrolled''
   \<and> VolunteerID (sample_enrollment ''enrolled'') = pvm_volunteer_id sample_match
   \<and> ProjectID (sample_enrollment ''enrolled'') = pvm_project_id sample_match
   \<and> refresh_all_matches sample_pg (sample_db [sample_enrollment ''enrolled'']) =
       Inr (2, (sample_db [sample_enrollment ''enrolled''])
                 \<lparr>project_volunteer_matches := [sample_match_abroad, sample_match]\<rparr>)"
proof -
  have "\<forall>ve \<in> set [sample_enrollment ''enrolled'']. Status ve \<noteq> ''active''"
    by (simp add: sample_enrollment_def)
  from sample_refresh[OF this, of sample_pg] show ?thesis
    by (simp add: sample_enrollment_def sample_match_def)
qed



text \<open>
  Claim C7. Every row a successful refresh leaves in the cache belongs to a project and
  a user on file, and its combined score is 0.7 skill + 0.3 proximity when the region
  policy puts their two locations in the same designated region, and 0.4 skill + 0.6
  proximity otherwise, proximity being \<open>max 0 (1 - distance_km / 100)\<close>.
\<close>
theorem combined_score_by_region:
  assumes "refresh_all_matches pg db = Inr (n, db')"
  shows "\<forall>m \<in> set (project_volunteer_matches db').
           \<exists>p \<in> set (projects db). \<exists>u \<in> set (users db).
             p_id p = pvm_project_id m \<and> u_id u = pvm_volunteer_id m
             \<and> pvm_combined_score m =
                 (if same_designated_region region_names (p_location_name p) (u_location_name u)
                  then 0.7 * pvm_skill_score m + 0.3 * max 0 (1 - pvm_distance_km m / 100)
                  else 0.4 * pvm_skill_score m + 0.6 * max 0 (1 - pvm_distance_km m / 100))"
proof
  fix m assume "m \<in> set (project_volunteer_matches db')"
  then obtain c where c: "c \<in> set (volunteer_project_combinations pg db)"
      and m: "m = tiered_match c"
    using refresh_cache[OF assms] by (auto simp: in_selected_matches)
  from c obtain p u vsv where pu: "p \<in> set (projects db)" "u \<in> set (users db)"
      and cc: "c = combination_of pg db p u vsv"
    by (auto simp: in_combinations)
  have "p_id p = pvm_project_id m \<and> u_id u = pvm_volunteer_id m
             \<and> pvm_combined_score m =
                 (if same_designated_region region_names (p_location_name p) (u_location_name u)
                  then 0.7 * pvm_skill_score m + 0.3 * max 0 (1 - pvm_distance_km m / 100)
                  else 0.4 * pvm_skill_score m + 0.6 * max 0 (1 - pvm_distance_km m / 100))"
    by (simp add: m cc tiered_match_def combination_of_def tier2_combined_score_def
          national_exception_region)
  with pu show "\<exists>p \<in> set (projects db). \<exists>u \<in> set (users db).
             p_id p = pvm_project_id m \<and> u_id u = pvm_volunteer_id m
             \<and> pvm_combined_score m =
                 (if same_designated_region region_names (p_location_name p) (u_location_name u)
                  then 0.7 * pvm_skill_score m + 0.3 * max 0 (1 - pvm_distance_km m / 100)
                  else 0.4 * pvm_skill_score m + 0.6 * max 0 (1 - pvm_distance_km m / 100))"
    by blast
qed

theorem combined_score_by_region_witness:
  "refresh_all_matches sample_pg (sample_db []) =
     Inr (2, (sample_db [])\<lparr>project_volunteer_matches := [sample_match_abroad, sample_match]\<rparr>)
   \<and> same_designated_region region_names (p_location_name sample_project)
         (u_location_name sample_volunteer)
   \<and> pvm_combined_score sample_match =
        0.7 * pvm_skill_score sample_match + 0.3 * max 0 (1 - pvm_distance_km sample_match / 100)
   \<and> \<not> same_designated_region region_names (p_location_name sample_project_abroad)
         (u_location_name sample_volunteer)
   \<and> pvm_combined_score sample_match_abroad =
        0.4 * pvm_skill_score sample_match_abroad
        + 0.6 * max 0 (1 - pvm_distance_km sample_match_abroad / 100)"
proof -
  have r: "refresh_all_matches sample_pg (sample_db []) =
     Inr (2, (sample_db [])\<lparr>project_volunteer_matches := [sample_match_abroad, sample_match]\<rparr>)"
    by (simp add: sample_refresh)
  have s: "same_designated_region region_names (p_location_name sample_project)
         (u_location_name sample_volunteer)"
     "\<not> same_designated_region region_names (p_location_name sample_project_abroad)
         (u_location_name sample_volunteer)"
    using sample_national_exception
    by (simp_all add: national_exception_region sample_project_def sample_project_abroad_def
          sample_volunteer_def)
  have ids: "p \<in> set (projects (sample_db [])) \<Longrightarrow> p_id p = ''p1'' \<Longrightarrow> p = sample_project"
       "p \<in> set (projects (sample_db [])) \<Longrightarrow> p_id p = ''p2'' \<Longrightarrow> p = sample_project_abroad"
       "u \<in> set (users (sample_db [])) \<Longrightarrow> u_id u = ''u1'' \<Longrightarrow> u = sample_volunteer" for p u
    by (auto simp: sample_db_def sample_project_def sample_project_abroad_def
          sample_project_nowhere_def sample_volunteer_def sample_coordinator_def
          sample_nowhere_def)
  have "\<forall>m \<in> set [sample_match_abroad, sample_match].
           \<exists>p \<in> set (projects (sample_db [])). \<exists>u \<in> set (users (sample_db [])).
             p_id p = pvm_project_id m \<and> u_id u = pvm_volunteer_id m
             \<and> pvm_combined_score m =
                 (if same_designated_region region_names (p_location_name p) (u_location_name u)
                  then 0.7 * pvm_skill_score m + 0.3 * max 0 (1 - pvm_distance_km m / 100)
                  else 0.4 * pvm_skill_score m + 0.6 * max 0 (1 - pvm_distance_km m / 100))"
    using combined_score_by_region[OF r] by simp
  then have "pvm_combined_score sample_match =
        0.7 * pvm_skill_score sample_match + 0.3 * max 0 (1 - pvm_distance_km sample_match / 100)"
    and "pvm_combined_score sample_match_abroad =
        0.4 * pvm_skill_score sample_match_abroad
        + 0.6 * max 0 (1 - pvm_distance_km sample_match_abroad / 100)"
    using s ids by (auto simp: sample_match_def sample_match_abroad_def)
  with r s show ?thesis by simp
qed

section \<open>Verification: on-demand matching\<close>

















end
